theory Spec2Isabelle
  imports Main "HOL-Library.Word"
begin

section \<open>Strings, bytes and the path functions of the Go standard library\<close>

text \<open>
  A Go \<^verbatim>\<open>string\<close> and a Go \<^verbatim>\<open>[]byte\<close> are both sequences of bytes, and the
  conversion \<^verbatim>\<open>string(entry.Content)\<close> keeps the bytes as they are. Both are
  modelled as \<^typ>\<open>char list\<close> (an Isabelle \<^typ>\<open>char\<close> is one byte).

  The program only builds on Unix (\<^verbatim>\<open>syscall.SysProcAttr{Setpgid: true}\<close>,
  \<^verbatim>\<open>syscall.Stat_t\<close>), so the path separator is the slash, there are no volume
  names, and \<^verbatim>\<open>filepath.ToSlash\<close> returns its argument.
  The functions of \<^verbatim>\<open>path/filepath\<close> and \<^verbatim>\<open>strings\<close> below are not code of the
  repository; they follow the documented behaviour of the standard library.
\<close>

type_synonym bytes = "char list"

definition newline :: char where
  "newline = CHR 0x0A"

fun Contains :: "string \<Rightarrow> string \<Rightarrow> bool" where
  "Contains [] substr = (substr = [])"
| "Contains (c # s) substr =
     (take (length substr) (c # s) = substr \<or> Contains s substr)"

definition ToSlash :: "string \<Rightarrow> string" where
  "ToSlash path = path"

text \<open>The elements of a path: the pieces between slashes, empty pieces included.\<close>

fun splitSlash :: "string \<Rightarrow> string list" where
  "splitSlash [] = [[]]"
| "splitSlash (c # s) =
     (if c = CHR ''/'' then [] # splitSlash s
      else (c # hd (splitSlash s)) # tl (splitSlash s))"

fun joinSlash :: "string list \<Rightarrow> string" where
  "joinSlash [] = []"
| "joinSlash [e] = e"
| "joinSlash (e # es) = e @ ''/'' @ joinSlash es"

text \<open>
  \<^verbatim>\<open>filepath.Clean\<close>: drop empty and \<^verbatim>\<open>.\<close> elements; a \<^verbatim>\<open>..\<close> element removes
  the element before it, is dropped at the root of a rooted path, and is kept at the
  start of a relative path; the empty result is \<^verbatim>\<open>.\<close>.
\<close>

definition cleanStep :: "bool \<Rightarrow> string list \<Rightarrow> string \<Rightarrow> string list" where
  "cleanStep rooted out e =
     (if e = [] \<or> e = ''.'' then out
      else if e = ''..'' then
        (if out \<noteq> [] \<and> last out \<noteq> ''..'' then butlast out
         else if rooted then out
         else out @ [''..''])
      else out @ [e])"

definition Clean :: "string \<Rightarrow> string" where
  "Clean path =
     (if path = [] then ''.''
      else
        (let rooted = (hd path = CHR ''/'');
             out = foldl (cleanStep rooted) [] (splitSlash path)
         in if rooted then CHR ''/'' # joinSlash out
            else if out = [] then ''.''
            else joinSlash out))"

text \<open>
  \<^verbatim>\<open>filepath.Join(a, b)\<close>: leading empty arguments are skipped, the rest is joined
  with slashes and cleaned; all arguments empty gives the empty string.
\<close>

definition Join :: "string \<Rightarrow> string \<Rightarrow> string" where
  "Join a b =
     (if a \<noteq> [] then Clean (a @ ''/'' @ b)
      else if b \<noteq> [] then Clean b
      else [])"

text \<open>
  \<^verbatim>\<open>filepath.Base\<close>: the last element of the path, after the trailing slashes are
  stripped; \<^verbatim>\<open>.\<close> for the empty path and \<^verbatim>\<open>/\<close> for a path of slashes only.
\<close>

definition stripTrailingSlashes :: "string \<Rightarrow> string" where
  "stripTrailingSlashes path = rev (dropWhile (\<lambda>c. c = CHR ''/'') (rev path))"

definition Base :: "string \<Rightarrow> string" where
  "Base path =
     (if path = [] then ''.''
      else
        (let p = stripTrailingSlashes path;
             e = rev (takeWhile (\<lambda>c. c \<noteq> CHR ''/'') (rev p))
         in if e = [] then ''/'' else e))"

text \<open>
  \<^verbatim>\<open>filepath.Rel(basepath, targpath)\<close>: both paths are cleaned; equal paths give
  \<^verbatim>\<open>.\<close>; a rooted and an unrooted path cannot be related; otherwise the common
  leading elements are dropped, every remaining element of the base becomes \<^verbatim>\<open>..\<close>
  (an error if the first one is \<^verbatim>\<open>..\<close> itself), and the remaining elements of the
  target follow. The result is cleaned, as the documentation of \<^verbatim>\<open>Rel\<close> says, so that a
  target \<^verbatim>\<open>.\<close> leaves no element behind.
\<close>

definition pathElems :: "string \<Rightarrow> string list" where
  "pathElems p =
     (let q = (if p \<noteq> [] \<and> hd p = CHR ''/'' then tl p else p)
      in if q = [] then [] else splitSlash q)"

fun dropCommon :: "string list \<Rightarrow> string list \<Rightarrow> string list \<times> string list" where
  "dropCommon (b # bs) (t # ts) =
     (if b = t then dropCommon bs ts else (b # bs, t # ts))"
| "dropCommon bs ts = (bs, ts)"

definition Rel :: "string \<Rightarrow> string \<Rightarrow> string + string" where
  "Rel basepath targpath =
     (let base = Clean basepath; targ = Clean targpath
      in if targ = base then Inr ''.''
         else
           (let base' = (if base = ''.'' then [] else base);
                baseSlashed = (base' \<noteq> [] \<and> hd base' = CHR ''/'');
                targSlashed = (targ \<noteq> [] \<and> hd targ = CHR ''/'')
            in if baseSlashed \<noteq> targSlashed
               then Inl (''Rel: can't make '' @ targpath @ '' relative to '' @ basepath)
               else
                 (case dropCommon (pathElems base') (pathElems targ) of
                    (rb, rt) \<Rightarrow>
                      if rb \<noteq> [] \<and> hd rb = ''..''
                      then Inl (''Rel: can't make '' @ targpath @ '' relative to '' @ basepath)
                      else Inr (Clean (joinSlash (replicate (length rb) ''..'' @ rt))))))"

section \<open>The visibility filter (filter.go)\<close>

text \<open>
  The compiled ignore file is an object of the library \<^verbatim>\<open>go-gitignore\<close>; the filter
  only calls its \<^verbatim>\<open>MatchesPath\<close>, so the object is modelled as that predicate, and the
  nil pointer as \<^const>\<open>None\<close>.
\<close>

type_synonym GitIgnore = "string \<Rightarrow> bool"

record Filter =
  gitIgnore :: "GitIgnore option"
  includeAll :: bool
  includeGit :: bool
  baseDir :: string

definition ShouldInclude :: "Filter \<Rightarrow> string \<Rightarrow> bool" where
  "ShouldInclude f path =
     (if \<not> includeGit f \<and> Base path = ''.git'' then False
      else if \<not> includeGit f \<and> Contains (ToSlash path) ''/.git/'' then False
      else if includeAll f then True
      else
        (case gitIgnore f of
           None \<Rightarrow> True
         | Some MatchesPath \<Rightarrow>
             (case Rel (baseDir f) path of
                Inl err \<Rightarrow> True
              | Inr relPath \<Rightarrow> \<not> MatchesPath (ToSlash relPath))))"

text \<open>
  The computation of the relative path in a run of \<^verbatim>\<open>ShouldInclude\<close>: the call
  \<^verbatim>\<open>filepath.Rel(f.baseDir, path)\<close> of line 67 and what it returns, when the run comes
  to it. The run returns before the call when the \<^verbatim>\<open>.git\<close> guard rejects the path
  (lines 46 to 55), when \<^verbatim>\<open>includeAll\<close> is set (line 57) and when there is no ignore
  file (line 62); then nothing is computed.
\<close>

definition relPathComputation :: "Filter \<Rightarrow> string \<Rightarrow> (string + string) option" where
  "relPathComputation f path =
     (if \<not> includeGit f \<and> Base path = ''.git'' then None
      else if \<not> includeGit f \<and> Contains (ToSlash path) ''/.git/'' then None
      else if includeAll f then None
      else
        (case gitIgnore f of
           None \<Rightarrow> None
         | Some MatchesPath \<Rightarrow> Some (Rel (baseDir f) path)))"

section \<open>The entry tree and its construction (cmd/flatten/main.go)\<close>

text \<open>
  \<^verbatim>\<open>FileEntry\<close> is the tree node. \<^verbatim>\<open>Size\<close> and \<^verbatim>\<open>ModTime\<close> are \<^verbatim>\<open>int64\<close>, \<^verbatim>\<open>Mode\<close> is
  the 32-bit \<^verbatim>\<open>fs.FileMode\<close>. A value of this type is the target of a non-nil
  \<^verbatim>\<open>*FileEntry\<close>; a pointer that may be nil is a \<^typ>\<open>'a option\<close>. The elements of
  \<^verbatim>\<open>Children\<close> are never nil, since \<^verbatim>\<open>loadDirectory\<close> appends a child only after the
  test \<^verbatim>\<open>child != nil\<close>. A nil \<^verbatim>\<open>Content\<close> and an empty one are both the empty list.
\<close>

datatype FileEntry =
  FileEntry (Path: string) (IsDir: bool) (Size: "64 word") (Mode: "32 word")
    (ModTime: "64 word") (Content: bytes) (Children: "FileEntry list")

text \<open>What \<^verbatim>\<open>os.Stat\<close> returns on success: the \<^verbatim>\<open>fs.FileInfo\<close> methods the code calls.\<close>

record FileInfo =
  info_IsDir :: bool
  info_Size :: "64 word"
  info_Mode :: "32 word"
  info_ModTime_Unix :: "64 word"

text \<open>
  The file system as the walk observes it. A node holds what the three calls
  \<^verbatim>\<open>os.Stat\<close>, \<^verbatim>\<open>os.ReadFile\<close> and \<^verbatim>\<open>os.ReadDir\<close> return at one path: an error of the
  operating system (its message) or the result. The listing pairs every name with the
  node found at \<^verbatim>\<open>filepath.Join(path, name)\<close>, in the order \<^verbatim>\<open>os.ReadDir\<close> returns.
  The three results are independent, so a node may be a directory whose listing fails
  or a file whose content cannot be read. A run makes finitely many calls, so what it
  observes is a finite tree; the recursion of the walk is the recursion over it.
\<close>

type_synonym oserror = string

datatype fsnode =
  FSNode (Stat: "oserror + FileInfo") (ReadFile: "oserror + bytes")
    (ReadDir: "oserror + (string \<times> fsnode) list")

text \<open>
  The errors \<^verbatim>\<open>loadDirectory\<close> builds with \<^verbatim>\<open>fmt.Errorf\<close>: the path and the wrapped
  error of the operating system. \<^verbatim>\<open>errorString\<close> is the message \<^verbatim>\<open>Error()\<close> returns.
\<close>

datatype error =
  StatFailure string oserror
| ReadFailure string oserror
| ReadDirFailure string oserror

fun errorPath :: "error \<Rightarrow> string" where
  "errorPath (StatFailure path err) = path"
| "errorPath (ReadFailure path err) = path"
| "errorPath (ReadDirFailure path err) = path"

fun errorString :: "error \<Rightarrow> string" where
  "errorString (StatFailure path err) = ''failed to stat path '' @ path @ '': '' @ err"
| "errorString (ReadFailure path err) = ''failed to read file '' @ path @ '': '' @ err"
| "errorString (ReadDirFailure path err) =
     ''failed to read directory '' @ path @ '': '' @ err"

text \<open>
  \<^verbatim>\<open>loadDirectory\<close> takes the path and the filter, and here also the node that the
  calls at this path observe. It returns \<^verbatim>\<open>(nil, err)\<close> as \<open>Inl err\<close>, \<^verbatim>\<open>(nil, nil)\<close> as
  \<open>Inr None\<close> and \<^verbatim>\<open>(entry, nil)\<close> as \<open>Inr (Some entry)\<close>. The loop over the listing
  is \<open>loadDirectory_loop\<close>; it carries the entry whose \<^verbatim>\<open>Children\<close> grow. (The copy of
  this function in the second part of \<^verbatim>\<open>filter.go\<close> differs in one call: it hands the
  stat result to a filter whose code is not among the sources.)
\<close>

fun loadDirectory :: "Filter \<Rightarrow> string \<Rightarrow> fsnode \<Rightarrow> error + FileEntry option"
  and loadDirectory_loop ::
    "Filter \<Rightarrow> string \<Rightarrow> (string \<times> fsnode) list \<Rightarrow> FileEntry \<Rightarrow> error + FileEntry option"
where
  "loadDirectory flt path (FSNode st rf rd) =
     (case st of
        Inl err \<Rightarrow> Inl (StatFailure path err)
      | Inr info \<Rightarrow>
          if \<not> ShouldInclude flt path then Inr None
          else
            (let entry = FileEntry path (info_IsDir info) (info_Size info) (info_Mode info)
                           (info_ModTime_Unix info) [] []
             in if \<not> info_IsDir info then
                  (case rf of
                     Inl err \<Rightarrow> Inl (ReadFailure path err)
                   | Inr content \<Rightarrow>
                       Inr (Some (FileEntry path (info_IsDir info) (info_Size info)
                                    (info_Mode info) (info_ModTime_Unix info) content [])))
                else
                  (case rd of
                     Inl err \<Rightarrow> Inl (ReadDirFailure path err)
                   | Inr entries \<Rightarrow> loadDirectory_loop flt path entries entry)))"
| "loadDirectory_loop flt path [] entry = Inr (Some entry)"
| "loadDirectory_loop flt path (item # entries) entry =
     (case loadDirectory flt (Join path (fst item)) (snd item) of
        Inl err \<Rightarrow> Inl err
      | Inr None \<Rightarrow> loadDirectory_loop flt path entries entry
      | Inr (Some child) \<Rightarrow>
          loadDirectory_loop flt path entries
            (FileEntry (Path entry) (IsDir entry) (Size entry) (Mode entry) (ModTime entry)
               (Content entry) (Children entry @ [child])))"

section \<open>The tallies and the directory diagram (cmd/flatten/main.go)\<close>

text \<open>
  \<^verbatim>\<open>getTotalSize\<close> returns an \<^verbatim>\<open>int64\<close> and \<^verbatim>\<open>getTotalFiles\<close> a Go \<^verbatim>\<open>int\<close>, which
  is as wide as the platform's word; the model is that of a 64-bit platform. Both are
  64-bit words, whose addition wraps as Go's does. The \<^verbatim>\<open>for\<close> loops carry \<^verbatim>\<open>total\<close>
  (here \<open>total'\<close>).
\<close>

fun getTotalFiles :: "FileEntry \<Rightarrow> 64 word"
  and getTotalFiles_loop :: "FileEntry list \<Rightarrow> 64 word \<Rightarrow> 64 word"
where
  "getTotalFiles (FileEntry path isDir sz mode mtime content children) =
     (if \<not> isDir then 1 else getTotalFiles_loop children 0)"
| "getTotalFiles_loop [] total' = total'"
| "getTotalFiles_loop (child # rest) total' =
     getTotalFiles_loop rest (total' + getTotalFiles child)"

fun getTotalSize :: "FileEntry \<Rightarrow> 64 word"
  and getTotalSize_loop :: "FileEntry list \<Rightarrow> 64 word \<Rightarrow> 64 word"
where
  "getTotalSize (FileEntry path isDir sz mode mtime content children) =
     (if \<not> isDir then sz else getTotalSize_loop children 0)"
| "getTotalSize_loop [] total' = total'"
| "getTotalSize_loop (child # rest) total' =
     getTotalSize_loop rest (total' + getTotalSize child)"

text \<open>The string constants of \<^verbatim>\<open>renderDirTree\<close>, as their UTF-8 bytes.\<close>

definition branchMarker :: string where
  "branchMarker =
     [CHR 0xE2, CHR 0x94, CHR 0x9C, CHR 0xE2, CHR 0x94, CHR 0x80,
      CHR 0xE2, CHR 0x94, CHR 0x80, CHR '' '']"

definition lastMarker :: string where
  "lastMarker =
     [CHR 0xE2, CHR 0x94, CHR 0x94, CHR 0xE2, CHR 0x94, CHR 0x80,
      CHR 0xE2, CHR 0x94, CHR 0x80, CHR '' '']"

definition barIndent :: string where
  "barIndent = [CHR 0xE2, CHR 0x94, CHR 0x82, CHR '' '', CHR '' '', CHR '' '']"

definition blankIndent :: string where
  "blankIndent = ''    ''"

text \<open>
  \<^verbatim>\<open>renderDirTree\<close>; its loop carries the index \<^verbatim>\<open>i\<close>, and \<open>n\<close> is
  \<^verbatim>\<open>len(entry.Children)\<close>, so that \<^verbatim>\<open>isLastChild\<close> is \<^verbatim>\<open>i == len(entry.Children)-1\<close>.
  The tallies and \<^verbatim>\<open>renderDirTree\<close> read the same in both variants of the program.
\<close>

fun renderDirTree :: "FileEntry \<Rightarrow> string \<Rightarrow> bool \<Rightarrow> string"
  and renderDirTree_loop :: "FileEntry list \<Rightarrow> int \<Rightarrow> int \<Rightarrow> string \<Rightarrow> string"
where
  "renderDirTree (FileEntry path isDir sz mode mtime content children) prefix isLast =
     (let sb = (if path \<noteq> ''.''
                then prefix @ (if isLast then lastMarker else branchMarker)
                       @ Base path @ [newline]
                else [])
      in if isDir then
           (let newPrefix =
                  (if path \<noteq> ''.''
                   then (if isLast then prefix @ blankIndent else prefix @ barIndent)
                   else prefix)
            in sb @ renderDirTree_loop children 0 (int (length children)) newPrefix)
         else sb)"
| "renderDirTree_loop [] i n newPrefix = []"
| "renderDirTree_loop (child # rest) i n newPrefix =
     renderDirTree child newPrefix (i = n - 1) @ renderDirTree_loop rest (i + 1) n newPrefix"

section \<open>Hashing and the flattened output (cmd/flatten/main.go)\<close>

text \<open>
  \<^verbatim>\<open>calculateFileHash\<close> is the hexadecimal form of the SHA-256 digest. The digest
  function of \<^verbatim>\<open>crypto/sha256\<close> is a parameter of the model: nothing below depends on
  which function it is. \<^verbatim>\<open>hex.EncodeToString\<close> writes two lower-case digits a byte.
\<close>

definition hexDigit :: "nat \<Rightarrow> char" where
  "hexDigit n = ''0123456789abcdef'' ! (n mod 16)"

definition hexEncodeToString :: "bytes \<Rightarrow> string" where
  "hexEncodeToString src =
     concat (map (\<lambda>b. [hexDigit (of_char b div 16), hexDigit (of_char b)]) src)"

definition calculateFileHash :: "(bytes \<Rightarrow> bytes) \<Rightarrow> bytes \<Rightarrow> string" where
  "calculateFileHash sha256 content = hexEncodeToString (sha256 content)"

record FileHash =
  fhPath :: string
  fhHash :: string
  fhContent :: bytes

text \<open>
  \<^verbatim>\<open>printFlattenedOutput\<close> writes to the builder \<^verbatim>\<open>w\<close> and updates the map
  \<^verbatim>\<open>fileHashes\<close>; the model takes both and returns both. The global
  \<^verbatim>\<open>noFileDeduplication\<close> is the argument \<open>noDedup\<close>. The three pieces of text it
  writes are named, the format strings of the source with their arguments in place.
\<close>

definition pathLine :: "string \<Rightarrow> string" where
  "pathLine path = [newline] @ ''- path: '' @ path @ [newline]"

definition contentBlock :: "bytes \<Rightarrow> string" where
  "contentBlock content =
     ''- content:'' @ [newline] @ ''```'' @ [newline] @ content @ [newline] @ ''```'' @ [newline]"

definition identicalLine :: "string \<Rightarrow> string" where
  "identicalLine existingPath =
     ''- content: Contents are identical to '' @ existingPath @ [newline]"

fun printFlattenedOutput ::
    "(bytes \<Rightarrow> bytes) \<Rightarrow> bool \<Rightarrow> FileEntry \<Rightarrow> string \<Rightarrow> (string \<rightharpoonup> FileHash)
       \<Rightarrow> string \<times> (string \<rightharpoonup> FileHash)"
  and printFlattenedOutput_loop ::
    "(bytes \<Rightarrow> bytes) \<Rightarrow> bool \<Rightarrow> FileEntry list \<Rightarrow> string \<Rightarrow> (string \<rightharpoonup> FileHash)
       \<Rightarrow> string \<times> (string \<rightharpoonup> FileHash)"
where
  "printFlattenedOutput sha256 noDedup (FileEntry path isDir sz mode mtime content children)
       w fileHashes =
     (if \<not> isDir then
        (if noDedup then (w @ pathLine path @ contentBlock content, fileHashes)
         else
           (let hash = calculateFileHash sha256 content
            in case fileHashes hash of
                 Some existing \<Rightarrow>
                   (w @ pathLine path @ identicalLine (fhPath existing), fileHashes)
               | None \<Rightarrow>
                   (w @ pathLine path @ contentBlock content,
                    fileHashes(hash \<mapsto>
                      \<lparr>fhPath = path, fhHash = hash, fhContent = content\<rparr>))))
      else printFlattenedOutput_loop sha256 noDedup children w fileHashes)"
| "printFlattenedOutput_loop sha256 noDedup [] w fileHashes = (w, fileHashes)"
| "printFlattenedOutput_loop sha256 noDedup (child # rest) w fileHashes =
     (case printFlattenedOutput sha256 noDedup child w fileHashes of
        (w', fileHashes') \<Rightarrow> printFlattenedOutput_loop sha256 noDedup rest w' fileHashes')"


section \<open>The command (filter.go, cmd/flatten/main.go)\<close>

text \<open>
  What the command reads from outside: whether \<^verbatim>\<open>os.Stat\<close> of the ignore file
  succeeds, what \<^verbatim>\<open>ignore.CompileIgnoreFile\<close> returns for it, what the walk observes
  from a path, and the digest function.
\<close>

record World =
  statSucceeds :: "string \<Rightarrow> bool"
  CompileIgnoreFile :: "string \<Rightarrow> oserror + GitIgnore"
  observed :: "string \<Rightarrow> fsnode"
  sha256 :: "bytes \<Rightarrow> bytes"

definition NewFilter :: "World \<Rightarrow> string \<Rightarrow> bool \<Rightarrow> bool \<Rightarrow> oserror + Filter" where
  "NewFilter world dir includeGitIgnore includeGit' =
     (let f = \<lparr>gitIgnore = None, includeAll = includeGitIgnore, includeGit = includeGit',
                baseDir = dir\<rparr>
      in if \<not> includeGitIgnore then
           (let gitIgnorePath = Join dir ''.gitignore''
            in if statSucceeds world gitIgnorePath then
                 (case CompileIgnoreFile world gitIgnorePath of
                    Inl err \<Rightarrow> Inl err
                  | Inr compiled \<Rightarrow> Inr (f\<lparr>gitIgnore := Some compiled\<rparr>))
               else Inr f)
         else Inr f)"

text \<open>The command-line flags that reach the code modelled here.\<close>

record Flags =
  flagIncludeGitIgnore :: bool
  flagIncludeGit :: bool
  noFileDeduplication :: bool

text \<open>\<^verbatim>\<open>%d\<close> of \<^verbatim>\<open>fmt.Sprintf\<close>: the decimal digits, with a minus sign below zero.\<close>

fun decimal :: "nat \<Rightarrow> string" where
  "decimal n =
     (if n < 10 then [char_of (48 + n)]
      else decimal (n div 10) @ [char_of (48 + n mod 10)])"

definition formatInt :: "int \<Rightarrow> string" where
  "formatInt i = (if i < 0 then CHR ''-'' # decimal (nat (- i)) else decimal (nat i))"

text \<open>
  Reading a field through a pointer: a nil pointer panics with a nil pointer
  dereference, which nothing in the program recovers.
\<close>

datatype panic = NilPointerDereference

definition deref :: "'a option \<Rightarrow> panic + 'a" where
  "deref p = (case p of None \<Rightarrow> Inl NilPointerDereference | Some v \<Rightarrow> Inr v)"

text \<open>
  \<^verbatim>\<open>rootCmd.RunE\<close> up to the point where the output is complete (lines 218 to 246);
  printing it or writing it to a file follows. The command panics, returns an error, or
  has built the output. \<^verbatim>\<open>getTotalFiles(root)\<close> is the first use of \<^verbatim>\<open>root\<close>, and its
  first statement reads \<^verbatim>\<open>entry.IsDir\<close>: a nil \<^verbatim>\<open>root\<close> panics there.
\<close>

datatype run = Panics panic | ReturnsError string | Builds string

definition runDir :: "string list \<Rightarrow> string" where
  "runDir args = (if length args > 0 then args ! 0 else ''.'')"

definition RunE :: "World \<Rightarrow> Flags \<Rightarrow> string list \<Rightarrow> run" where
  "RunE world flags args =
     (let dir = runDir args
      in case NewFilter world dir (flagIncludeGitIgnore flags) (flagIncludeGit flags) of
           Inl err \<Rightarrow> ReturnsError (''failed to create filter: '' @ err)
         | Inr flt \<Rightarrow>
             (case loadDirectory flt dir (observed world dir) of
                Inl err \<Rightarrow>
                  ReturnsError (''failed to load directory structure: '' @ errorString err)
              | Inr root \<Rightarrow>
                  (case deref root of
                     Inl p \<Rightarrow> Panics p
                   | Inr entry \<Rightarrow>
                       (let output =
                              ''- Total files: '' @ formatInt (sint (getTotalFiles entry))
                                @ [newline]
                              @ ''- Total size: '' @ formatInt (sint (getTotalSize entry))
                                @ '' bytes'' @ [newline]
                              @ ''- Dir tree:'' @ [newline] @ renderDirTree entry [] False
                                @ [newline]
                        in Builds
                             (fst (printFlattenedOutput (sha256 world)
                                     (noFileDeduplication flags) entry output Map.empty))))))"

section \<open>Notions of the specification\<close>

text \<open>
  The definitions of this section are not translations of code: they say what the
  specification talks about, so that the code can be compared with them.
\<close>

subsection \<open>Entries of a tree\<close>

text \<open>All entries of a tree, the root first, and the entries that are not directories.\<close>

fun entries :: "FileEntry \<Rightarrow> FileEntry list" where
  "entries (FileEntry path isDir sz mode mtime content children) =
     FileEntry path isDir sz mode mtime content children # concat (map entries children)"

definition fileEntries :: "FileEntry \<Rightarrow> FileEntry list" where
  "fileEntries e = filter (\<lambda>x. \<not> IsDir x) (entries e)"

text \<open>
  The invariant of the data model, for a whole tree: a directory has no content and a
  file has no children.
\<close>

fun wellFormed :: "FileEntry \<Rightarrow> bool" where
  "wellFormed (FileEntry path isDir sz mode mtime content children) =
     ((if isDir then content = [] else children = []) \<and> list_all wellFormed children)"

subsection \<open>Failures of a walk\<close>

text \<open>
  Every operation that fails on a path the walk comes to, in the order of the walk:
  the stat of a path, the reading of an included file, the listing of an included
  directory. The walk comes to the root and to the listed children of every included
  directory; it does not go below an excluded path.
\<close>

fun failures :: "Filter \<Rightarrow> string \<Rightarrow> fsnode \<Rightarrow> error list" where
  "failures flt path (FSNode st rf rd) =
     (case st of
        Inl err \<Rightarrow> [StatFailure path err]
      | Inr info \<Rightarrow>
          if \<not> ShouldInclude flt path then []
          else if \<not> info_IsDir info then
            (case rf of Inl err \<Rightarrow> [ReadFailure path err] | Inr content \<Rightarrow> [])
          else
            (case rd of
               Inl err \<Rightarrow> [ReadDirFailure path err]
             | Inr items \<Rightarrow>
                 concat (map (\<lambda>item. failures flt (Join path (fst item)) (snd item)) items)))"

subsection \<open>Records of the flattened output\<close>


fun renderedFiles :: "FileEntry \<Rightarrow> FileEntry list" where
  "renderedFiles (FileEntry path isDir sz mode mtime content children) =
     (if \<not> isDir then [FileEntry path isDir sz mode mtime content children]
      else concat (map renderedFiles children))"







subsection \<open>The directory diagram\<close>





subsection \<open>Example inputs\<close>

text \<open>
  A readable file with the given content, a directory with the given listing, the
  filter of a run with default flags in a directory without ignore file, and an ignore
  file that matches every path.
\<close>

definition fileNode :: "bytes \<Rightarrow> fsnode" where
  "fileNode content =
     FSNode
       (Inr \<lparr>info_IsDir = False, info_Size = word_of_nat (length content),
             info_Mode = 0x1A4, info_ModTime_Unix = 0\<rparr>)
       (Inr content) (Inl ''not a directory'')"

definition dirNode :: "(string \<times> fsnode) list \<Rightarrow> fsnode" where
  "dirNode items =
     FSNode
       (Inr \<lparr>info_IsDir = True, info_Size = 4096, info_Mode = 0x800001ED,
             info_ModTime_Unix = 0\<rparr>)
       (Inl ''is a directory'') (Inr items)"

definition defaultFilter :: "string \<Rightarrow> Filter" where
  "defaultFilter dir =
     \<lparr>gitIgnore = None, includeAll = False, includeGit = False, baseDir = dir\<rparr>"

definition matchEverything :: GitIgnore where
  "matchEverything relPath = True"

text \<open>A node at which every call fails, as for a file removed during the walk.\<close>

definition goneNode :: fsnode where
  "goneNode =
     FSNode (Inl ''no such file or directory'') (Inl ''no such file or directory'')
       (Inl ''no such file or directory'')"

text \<open>
  A stand-in for the digest function in examples (the theorems hold for every digest
  function), a world without ignore file in which the walk observes the given node,
  and the default flags.
\<close>

definition toyDigest :: "bytes \<Rightarrow> bytes" where
  "toyDigest content = take 4 content"


definition exampleWorld :: "fsnode \<Rightarrow> World" where
  "exampleWorld node =
     \<lparr>statSucceeds = (\<lambda>path. False),
      CompileIgnoreFile = (\<lambda>path. Inl ''no such file or directory''),
      observed = (\<lambda>path. node),
      sha256 = toyDigest\<rparr>"

definition defaultFlags :: Flags where
  "defaultFlags =
     \<lparr>flagIncludeGitIgnore = False, flagIncludeGit = False, noFileDeduplication = False\<rparr>"

text \<open>
  The example of the specification: a directory with \<^verbatim>\<open>a.txt\<close> and \<^verbatim>\<open>sub/b.txt\<close>, both
  holding \<^verbatim>\<open>hello\<close>, and the tree built from it at the path \<^verbatim>\<open>.\<close>.
\<close>

definition exampleDir :: fsnode where
  "exampleDir =
     dirNode [(''a.txt'', fileNode ''hello''), (''sub'', dirNode [(''b.txt'', fileNode ''hello'')])]"

definition exampleA :: FileEntry where
  "exampleA = FileEntry ''a.txt'' False 5 0x1A4 0 ''hello'' []"

definition exampleB :: FileEntry where
  "exampleB = FileEntry ''sub/b.txt'' False 5 0x1A4 0 ''hello'' []"

definition exampleSub :: FileEntry where
  "exampleSub = FileEntry ''sub'' True 4096 0x800001ED 0 [] [exampleB]"

definition exampleTree :: FileEntry where
  "exampleTree = FileEntry ''.'' True 4096 0x800001ED 0 [] [exampleA, exampleSub]"

section \<open>Lemmas\<close>

subsection \<open>The built tree keeps the invariant of the data model\<close>

lemma loadDirectory_wellFormed_aux:
  "\<forall>e. loadDirectory flt path node = Inr (Some e) \<longrightarrow> wellFormed e"
  "\<forall>e. wellFormed entry \<longrightarrow> IsDir entry \<longrightarrow>
       loadDirectory_loop flt path items entry = Inr (Some e) \<longrightarrow> wellFormed e"
proof (induction flt path node and flt path items entry
    rule: loadDirectory_loadDirectory_loop.induct)
  case (1 flt path st rf rd)
  then show ?case
    by (auto split: sum.splits if_splits simp: Let_def)
next
  case (2 flt path entry)
  then show ?case by simp
next
  case (3 flt path item entries entry)
  then show ?case
    by (cases entry) (auto split: sum.splits option.splits)
qed

lemma loadDirectory_wellFormed:
  "loadDirectory flt path node = Inr (Some e) \<Longrightarrow> wellFormed e"
  using loadDirectory_wellFormed_aux(1) by blast

lemma wellFormed_entries:
  "wellFormed e \<Longrightarrow> x \<in> set (entries e) \<Longrightarrow>
     (if IsDir x then Content x = [] else Children x = [])"
  by (induction e) (auto simp: list_all_iff)

subsection \<open>The tallies\<close>

lemma getTotalFiles_loop_sum:
  "getTotalFiles_loop cs t = t + sum_list (map getTotalFiles cs)"
  by (induction cs arbitrary: t) (simp_all add: add.assoc)

lemma getTotalSize_loop_sum:
  "getTotalSize_loop cs t = t + sum_list (map getTotalSize cs)"
  by (induction cs arbitrary: t) (simp_all add: add.assoc)

lemma fileEntries_simps:
  "fileEntries (FileEntry path isDir sz mode mtime content children) =
     (if isDir then [] else [FileEntry path isDir sz mode mtime content children])
       @ concat (map fileEntries children)"
  by (simp add: fileEntries_def [abs_def] filter_concat comp_def)

lemma length_concat_word:
  "(word_of_nat (length (concat xss)) :: 64 word) =
     sum_list (map (\<lambda>xs. word_of_nat (length xs)) xss)"
  by (induction xss) simp_all

lemma sum_list_concat_map:
  fixes f :: "'a \<Rightarrow> 'b::monoid_add"
  shows "sum_list (map f (concat xss)) = sum_list (map (\<lambda>xs. sum_list (map f xs)) xss)"
  by (induction xss) simp_all

lemma getTotalFiles_wellFormed:
  "wellFormed e \<Longrightarrow> getTotalFiles e = word_of_nat (length (fileEntries e))"
proof (induction e)
  case (FileEntry path isDir sz mode mtime content children)
  show ?case
  proof (cases isDir)
    case False
    with FileEntry.prems show ?thesis by (simp add: fileEntries_simps)
  next
    case True
    have eq: "sum_list (map getTotalFiles children) =
        sum_list (map (\<lambda>c. word_of_nat (length (fileEntries c))) children)"
      by (rule arg_cong [where f = sum_list], rule map_cong)
        (use FileEntry in \<open>auto simp: list_all_iff\<close>)
    from True show ?thesis
      by (simp add: fileEntries_simps getTotalFiles_loop_sum length_concat_word comp_def eq)
  qed
qed

lemma getTotalSize_wellFormed:
  "wellFormed e \<Longrightarrow> getTotalSize e = sum_list (map Size (fileEntries e))"
proof (induction e)
  case (FileEntry path isDir sz mode mtime content children)
  show ?case
  proof (cases isDir)
    case False
    with FileEntry.prems show ?thesis by (simp add: fileEntries_simps)
  next
    case True
    have eq: "sum_list (map getTotalSize children) =
        sum_list (map (\<lambda>c. sum_list (map Size (fileEntries c))) children)"
      by (rule arg_cong [where f = sum_list], rule map_cong)
        (use FileEntry in \<open>auto simp: list_all_iff\<close>)
    from True show ?thesis
      by (simp add: fileEntries_simps getTotalSize_loop_sum sum_list_concat_map comp_def eq)
  qed
qed

text \<open>A 64-bit sum read as a signed number is the sum of the signed numbers, if that fits.\<close>

lemma sum_list_word_of_int:
  fixes ws :: "64 word list"
  shows "sum_list ws = word_of_int (sum_list (map sint ws))"
  by (induction ws) simp_all

lemma sint_word_of_int_exact:
  "- (2 ^ 63) \<le> i \<Longrightarrow> i < 2 ^ 63 \<Longrightarrow> sint (word_of_int i :: 64 word) = i"
  by (simp add: sint_sbintrunc' signed_take_bit_int_eq_self)

lemma sint_sum_list_exact:
  fixes ws :: "64 word list"
  assumes "- (2 ^ 63) \<le> sum_list (map sint ws)" "sum_list (map sint ws) < 2 ^ 63"
  shows "sint (sum_list ws) = sum_list (map sint ws)"
  using sint_word_of_int_exact [OF assms] sum_list_word_of_int [of ws] by simp

lemma sint_word_of_nat_exact:
  "n < 2 ^ 63 \<Longrightarrow> sint (word_of_nat n :: 64 word) = int n"
  using sint_word_of_int_exact [of "int n"] by simp

subsection \<open>The flattened output\<close>

lemma renderedFiles_wellFormed: "wellFormed e \<Longrightarrow> renderedFiles e = fileEntries e"
proof (induction e)
  case (FileEntry path isDir sz mode mtime content children)
  have eq: "concat (map renderedFiles children) = concat (map fileEntries children)"
    by (rule arg_cong [where f = concat], rule map_cong)
      (use FileEntry in \<open>auto simp: list_all_iff\<close>)
  from FileEntry.prems show ?case
    by (simp add: fileEntries_simps eq)
qed








subsection \<open>Failures of the walk\<close>

lemma loadDirectory_failures_aux:
  "(failures flt path node = [] \<longrightarrow> (\<exists>r. loadDirectory flt path node = Inr r)) \<and>
   (failures flt path node \<noteq> [] \<longrightarrow>
      loadDirectory flt path node = Inl (hd (failures flt path node)))"
  "(concat (map (\<lambda>item. failures flt (Join path (fst item)) (snd item)) items) = [] \<longrightarrow>
      (\<exists>r. loadDirectory_loop flt path items entry = Inr r)) \<and>
   (concat (map (\<lambda>item. failures flt (Join path (fst item)) (snd item)) items) \<noteq> [] \<longrightarrow>
      loadDirectory_loop flt path items entry =
        Inl (hd (concat (map (\<lambda>item. failures flt (Join path (fst item)) (snd item)) items))))"
proof (induction flt path node and flt path items entry
    rule: loadDirectory_loadDirectory_loop.induct)
  case (1 flt path st rf rd)
  then show ?case
    by (auto simp: Let_def split: sum.splits)
next
  case (2 flt path entry)
  show ?case by simp
next
  case (3 flt path item items entry)
  show ?case
  proof (cases "failures flt (Join path (fst item)) (snd item)")
    case Nil
    with 3(1) obtain r where r: "loadDirectory flt (Join path (fst item)) (snd item) = Inr r"
      by auto
    show ?thesis
    proof (cases r)
      case None
      with r Nil 3(2) [OF r None] show ?thesis by simp
    next
      case (Some child)
      with r Nil 3(3) [OF r Some] show ?thesis by simp
    qed
  next
    case (Cons e es)
    with 3(1) show ?thesis by simp
  qed
qed

lemma Contains_Nil: "Contains s []"
  by (cases s) simp_all

lemma Contains_prefix: "Contains (p @ b) p"
  by (cases p) (simp_all add: Contains_Nil)

lemma Contains_append: "Contains (a @ p @ b) p"
  by (induction a) (simp_all add: Contains_prefix)

lemma Contains_errorString: "Contains (errorString e) (errorPath e)"
  by (cases e) (simp_all only: errorString.simps errorPath.simps Contains_append)

subsection \<open>The diagram\<close>










subsection \<open>The filter at the root and the example\<close>

lemma ShouldInclude_git_rule:
  "\<not> includeGit f \<Longrightarrow> Base path = ''.git'' \<or> Contains (ToSlash path) ''/.git/'' \<Longrightarrow>
     \<not> ShouldInclude f path"
  by (auto simp: ShouldInclude_def)

text \<open>
  A run of \<^verbatim>\<open>ShouldInclude\<close> that comes to the computation of the relative path has
  passed the \<^verbatim>\<open>.git\<close> guard, and its verdict is made from what the computation returns.
\<close>

lemma relPathComputation_reached:
  assumes "relPathComputation f path = Some r"
  shows "r = Rel (baseDir f) path"
    and "includeGit f \<or> (Base path \<noteq> ''.git'' \<and> \<not> Contains (ToSlash path) ''/.git/'')"
    and "\<not> includeAll f"
    and "\<exists>MatchesPath. gitIgnore f = Some MatchesPath \<and>
           ShouldInclude f path =
             (case r of Inl err \<Rightarrow> True | Inr relPath \<Rightarrow> \<not> MatchesPath (ToSlash relPath))"
  using assms
  by (auto simp: relPathComputation_def ShouldInclude_def split: if_splits option.splits)

lemma rel_failure_past_git_guard:
  assumes "Rel (baseDir f) path = Inl err"
    and "includeGit f \<or> (Base path \<noteq> ''.git'' \<and> \<not> Contains (ToSlash path) ''/.git/'')"
  shows "ShouldInclude f path"
  using assms by (auto simp: ShouldInclude_def split: option.splits)

lemma loadDirectory_excluded:
  "Stat node = Inr info \<Longrightarrow> \<not> ShouldInclude flt path \<Longrightarrow>
     loadDirectory flt path node = Inr None"
  by (cases node) simp

lemma example_build:
  "loadDirectory (defaultFilter ''.'') ''.'' exampleDir = Inr (Some exampleTree)"
  by code_simp

text \<open>
  Every entry of a built tree has passed the filter, so without \<^verbatim>\<open>includeGit\<close> no
  entry has the base name \<^verbatim>\<open>.git\<close> or a path that contains \<^verbatim>\<open>/.git/\<close>.
\<close>

lemma loadDirectory_included_aux:
  "loadDirectory flt path node = Inr (Some e) \<Longrightarrow>
     list_all (\<lambda>x. ShouldInclude flt (Path x)) (entries e)"
  "list_all (\<lambda>x. ShouldInclude flt (Path x)) (entries entry) \<Longrightarrow>
     loadDirectory_loop flt path items entry = Inr (Some e) \<Longrightarrow>
     list_all (\<lambda>x. ShouldInclude flt (Path x)) (entries e)"
proof (induction flt path node and flt path items entry arbitrary: e and e
    rule: loadDirectory_loadDirectory_loop.induct)
  case (1 flt path st rf rd)
  then show ?case
    by (auto simp: Let_def split: sum.splits if_splits)
next
  case (2 flt path entry)
  then show ?case by simp
next
  case (3 flt path item items entry)
  show ?case
  proof (cases "loadDirectory flt (Join path (fst item)) (snd item)")
    case (Inl err)
    with 3(5) show ?thesis by simp
  next
    case (Inr r)
    show ?thesis
    proof (cases r)
      case None
      with Inr 3(5) have "loadDirectory_loop flt path items entry = Inr (Some e)" by simp
      from 3(2) [OF Inr None 3(4) this] show ?thesis .
    next
      case (Some child)
      from 3(1) Inr Some have c: "list_all (\<lambda>x. ShouldInclude flt (Path x)) (entries child)"
        by simp
      let ?entry = "FileEntry (Path entry) (IsDir entry) (Size entry) (Mode entry)
          (ModTime entry) (Content entry) (Children entry @ [child])"
      from 3(4) c have ch: "list_all (\<lambda>x. ShouldInclude flt (Path x)) (entries ?entry)"
        by (cases entry) simp
      from Inr Some 3(5) have "loadDirectory_loop flt path items ?entry = Inr (Some e)"
        by simp
      from 3(3) [OF Inr Some ch this] show ?thesis .
    qed
  qed
qed

lemma built_tree_passes_git_rule:
  assumes "loadDirectory flt path node = Inr (Some root)" and "e \<in> set (entries root)"
    and "\<not> includeGit flt"
  shows "Base (Path e) \<noteq> ''.git'' \<and> \<not> Contains (ToSlash (Path e)) ''/.git/''"
proof -
  from loadDirectory_included_aux(1) [OF assms(1)] assms(2)
  have "ShouldInclude flt (Path e)" by (simp add: list_all_iff)
  with ShouldInclude_git_rule [OF assms(3), of "Path e"] show ?thesis by blast
qed

section \<open>The claims\<close>

text \<open>
  C1. The claim: the root entry returned by \<^verbatim>\<open>loadDirectory\<close> always represents the
  input directory, because the filter is applied to descendants only and never to the
  root. The code does not keep it: \<^verbatim>\<open>loadDirectory\<close> calls \<^verbatim>\<open>filter.ShouldInclude\<close> on
  every path, the root included. For the existing directory \<^verbatim>\<open>project/.git\<close> and
  default flags the build returns no entry and no error.
\<close>

theorem root_filtered_by_own_name:
  "loadDirectory (defaultFilter ''project/.git'') ''project/.git''
     (dirNode [(''config'', fileNode ''x'')]) = Inr None"
  by code_simp

text \<open>
  C2. The claim: with \<^verbatim>\<open>includeGit\<close> false, \<^verbatim>\<open>ShouldInclude\<close> is false for every path
  that has \<^verbatim>\<open>.git\<close> as a segment at any depth, so no such file is in the built tree.
  The code tests the base name and the substring \<^verbatim>\<open>/.git/\<close>, and so misses a \<^verbatim>\<open>.git\<close>
  that is the first segment of a relative path and not the last: the path
  \<^verbatim>\<open>.git/hooks/pre-commit\<close> is included, and the tree built from the root \<^verbatim>\<open>.git/hooks\<close>
  with default flags holds that file. (What the code does keep out of every built tree
  are the paths its two tests reject, by \<open>built_tree_passes_git_rule\<close>.)
\<close>

theorem git_leading_segment_included:
  "ShouldInclude (defaultFilter ''.git/hooks'') ''.git/hooks/pre-commit'' \<and>
   loadDirectory (defaultFilter ''.git/hooks'') ''.git/hooks''
       (dirNode [(''pre-commit'', fileNode ''exit 0'')]) =
     Inr (Some (FileEntry ''.git/hooks'' True 4096 0x800001ED 0 []
                  [FileEntry ''.git/hooks/pre-commit'' False 6 0x1A4 0 ''exit 0'' []]))"
  by code_simp






text \<open>
  C5. If the stat of the root succeeds and the filter rejects the root path,
  \<^verbatim>\<open>loadDirectory\<close> returns a nil entry and a nil error, and the command, which uses the
  entry unchecked, panics with a nil pointer dereference: it neither builds output nor
  returns an error. A root directory named \<^verbatim>\<open>.git\<close> under default flags is such an
  input.
\<close>

theorem nil_root_panics:
  assumes "NewFilter world (runDir args) (flagIncludeGitIgnore flags) (flagIncludeGit flags) =
             Inr flt"
    and "Stat (observed world (runDir args)) = Inr info"
    and "\<not> ShouldInclude flt (runDir args)"
  shows "loadDirectory flt (runDir args) (observed world (runDir args)) = Inr None \<and>
         RunE world flags args = Panics NilPointerDereference"
proof -
  from loadDirectory_excluded [OF assms(2) assms(3)]
  have "loadDirectory flt (runDir args) (observed world (runDir args)) = Inr None" .
  with assms(1) show ?thesis
    by (simp add: RunE_def deref_def)
qed

theorem nil_root_panics_witness:
  "runDir [''.git''] = ''.git'' \<and>
   NewFilter (exampleWorld (dirNode [(''config'', fileNode ''x'')])) ''.git''
       (flagIncludeGitIgnore defaultFlags) (flagIncludeGit defaultFlags) =
     Inr (defaultFilter ''.git'') \<and>
   Stat (observed (exampleWorld (dirNode [(''config'', fileNode ''x'')])) ''.git'') =
     Inr \<lparr>info_IsDir = True, info_Size = 4096, info_Mode = 0x800001ED,
          info_ModTime_Unix = 0\<rparr> \<and>
   \<not> ShouldInclude (defaultFilter ''.git'') ''.git'' \<and>
   loadDirectory (defaultFilter ''.git'') ''.git''
       (observed (exampleWorld (dirNode [(''config'', fileNode ''x'')])) ''.git'') = Inr None \<and>
   RunE (exampleWorld (dirNode [(''config'', fileNode ''x'')])) defaultFlags [''.git''] =
     Panics NilPointerDereference"
proof -
  let ?world = "exampleWorld (dirNode [(''config'', fileNode ''x'')])"
  have d: "runDir [''.git''] = ''.git''" by (simp add: runDir_def)
  have f: "NewFilter ?world (runDir [''.git'']) (flagIncludeGitIgnore defaultFlags)
      (flagIncludeGit defaultFlags) = Inr (defaultFilter ''.git'')"
    by (simp add: d NewFilter_def exampleWorld_def defaultFlags_def defaultFilter_def)
  have s: "Stat (observed ?world (runDir [''.git''])) =
      Inr \<lparr>info_IsDir = True, info_Size = 4096, info_Mode = 0x800001ED,
           info_ModTime_Unix = 0\<rparr>"
    by (simp add: exampleWorld_def dirNode_def)
  have x: "\<not> ShouldInclude (defaultFilter ''.git'') (runDir [''.git''])"
    by (simp add: d ShouldInclude_def defaultFilter_def Base_def stripTrailingSlashes_def)
  from nil_root_panics [OF f s x] f s x d show ?thesis by simp
qed

text \<open>
  C6. For every path for which the computation of the relative path fails,
  \<^verbatim>\<open>ShouldInclude\<close> returns true. The relative path is computed in the runs that the
  earlier rules have not decided (\<^const>\<open>relPathComputation\<close>); a failure there
  includes the path, whatever the ignore file matches. More generally, whenever
  \<^verbatim>\<open>filepath.Rel\<close> fails for a path that has passed the \<^verbatim>\<open>.git\<close> guard, the path is
  included. \<^verbatim>\<open>ShouldInclude\<close> returns a truth value only, so the failure does not reach
  the caller as an error.
\<close>

theorem rel_failure_includes:
  "(relPathComputation f path = Some (Inl err) \<longrightarrow> ShouldInclude f path) \<and>
   (Rel (baseDir f) path = Inl err \<and>
    (includeGit f \<or> (Base path \<noteq> ''.git'' \<and> \<not> Contains (ToSlash path) ''/.git/'')) \<longrightarrow>
      ShouldInclude f path)"
proof (intro conjI impI)
  assume c: "relPathComputation f path = Some (Inl err)"
  from relPathComputation_reached(1) [OF c] relPathComputation_reached(2) [OF c]
  show "ShouldInclude f path"
    using rel_failure_past_git_guard [of f path err] by simp
next
  assume "Rel (baseDir f) path = Inl err \<and>
    (includeGit f \<or> (Base path \<noteq> ''.git'' \<and> \<not> Contains (ToSlash path) ''/.git/''))"
  then show "ShouldInclude f path"
    using rel_failure_past_git_guard [of f path err] by blast
qed

text \<open>
  An instance: even an ignore file that matches every path does not exclude a path
  whose relative path cannot be computed.
\<close>

theorem rel_failure_includes_witness:
  "relPathComputation
       \<lparr>gitIgnore = Some matchEverything, includeAll = False, includeGit = False,
        baseDir = ''repo''\<rparr> ''/abs/notes.txt'' =
     Some (Inl ''Rel: can't make /abs/notes.txt relative to repo'') \<and>
   Rel (baseDir \<lparr>gitIgnore = Some matchEverything, includeAll = False, includeGit = False,
         baseDir = ''repo''\<rparr>) ''/abs/notes.txt'' =
     Inl ''Rel: can't make /abs/notes.txt relative to repo'' \<and>
   Base ''/abs/notes.txt'' \<noteq> ''.git'' \<and>
   \<not> Contains (ToSlash ''/abs/notes.txt'') ''/.git/'' \<and>
   ShouldInclude \<lparr>gitIgnore = Some matchEverything, includeAll = False, includeGit = False,
         baseDir = ''repo''\<rparr> ''/abs/notes.txt''"
proof -
  let ?f = "\<lparr>gitIgnore = Some matchEverything, includeAll = False, includeGit = False,
         baseDir = ''repo''\<rparr>"
  have r: "Rel (baseDir ?f) ''/abs/notes.txt'' =
      Inl ''Rel: can't make /abs/notes.txt relative to repo''"
    by code_simp
  have b: "Base ''/abs/notes.txt'' \<noteq> ''.git''" by code_simp
  have c: "\<not> Contains (ToSlash ''/abs/notes.txt'') ''/.git/''" by code_simp
  from r b c have p: "relPathComputation ?f ''/abs/notes.txt'' =
      Some (Inl ''Rel: can't make /abs/notes.txt relative to repo'')"
    by (simp add: relPathComputation_def)
  from rel_failure_includes [of ?f "''/abs/notes.txt''"
      "''Rel: can't make /abs/notes.txt relative to repo''"] p r b c
  show ?thesis by blast
qed

text \<open>
  C7. If any operation of the walk fails (the stat of a path the walk comes to, the
  reading of an included file, the listing of an included directory), the build
  returns an error and no tree. The error is the first failure in the order of the
  walk; it carries the path at which the operation failed, and its message contains
  that path.
\<close>

theorem failure_is_fatal:
  assumes "failures flt path node \<noteq> []"
  shows "loadDirectory flt path node = Inl (hd (failures flt path node)) \<and>
         hd (failures flt path node) \<in> set (failures flt path node) \<and>
         Contains (errorString (hd (failures flt path node)))
           (errorPath (hd (failures flt path node)))"
  using assms loadDirectory_failures_aux(1) [of flt path node]
  by (simp add: Contains_errorString)

theorem failure_is_fatal_witness:
  "failures (defaultFilter ''.'') ''.''
       (dirNode [(''a.txt'', fileNode ''hello''), (''sub'', dirNode [(''gone'', goneNode)])]) =
     [StatFailure ''sub/gone'' ''no such file or directory''] \<and>
   loadDirectory (defaultFilter ''.'') ''.''
       (dirNode [(''a.txt'', fileNode ''hello''), (''sub'', dirNode [(''gone'', goneNode)])]) =
     Inl (StatFailure ''sub/gone'' ''no such file or directory'') \<and>
   errorString (StatFailure ''sub/gone'' ''no such file or directory'') =
     ''failed to stat path sub/gone: no such file or directory''"
proof -
  let ?node = "dirNode [(''a.txt'', fileNode ''hello''), (''sub'', dirNode [(''gone'', goneNode)])]"
  have f: "failures (defaultFilter ''.'') ''.'' ?node =
      [StatFailure ''sub/gone'' ''no such file or directory'']"
    by code_simp
  then have "failures (defaultFilter ''.'') ''.'' ?node \<noteq> []" by simp
  from failure_is_fatal [OF this] f show ?thesis by simp
qed



text \<open>
  C9. For every built tree \<^verbatim>\<open>getTotalFiles\<close> is the number of entries of the tree that
  are not directories, and \<^verbatim>\<open>getTotalSize\<close> is the sum of their sizes, in 64-bit
  arithmetic; read as signed numbers they are the exact count and the exact sum
  whenever these fit into 64 bits.
\<close>

theorem totals_of_built_tree:
  assumes "loadDirectory flt path node = Inr (Some root)"
  shows "getTotalFiles root = word_of_nat (length (fileEntries root)) \<and>
         getTotalSize root = sum_list (map Size (fileEntries root)) \<and>
         (length (fileEntries root) < 2 ^ 63 \<longrightarrow>
            sint (getTotalFiles root) = int (length (fileEntries root))) \<and>
         (- (2 ^ 63) \<le> sum_list (map (\<lambda>f. sint (Size f)) (fileEntries root)) \<and>
          sum_list (map (\<lambda>f. sint (Size f)) (fileEntries root)) < 2 ^ 63 \<longrightarrow>
            sint (getTotalSize root) = sum_list (map (\<lambda>f. sint (Size f)) (fileEntries root)))"
proof -
  from assms have wf: "wellFormed root" by (rule loadDirectory_wellFormed)
  have files: "getTotalFiles root = word_of_nat (length (fileEntries root))"
    using wf by (rule getTotalFiles_wellFormed)
  have size: "getTotalSize root = sum_list (map Size (fileEntries root))"
    using wf by (rule getTotalSize_wellFormed)
  have "sint (getTotalSize root) = sum_list (map (\<lambda>f. sint (Size f)) (fileEntries root))"
    if "- (2 ^ 63) \<le> sum_list (map (\<lambda>f. sint (Size f)) (fileEntries root))"
      and "sum_list (map (\<lambda>f. sint (Size f)) (fileEntries root)) < 2 ^ 63"
    using sint_sum_list_exact [of "map Size (fileEntries root)"] that
    by (simp add: size comp_def)
  with files size show ?thesis
    by (simp add: sint_word_of_nat_exact)
qed

theorem totals_of_built_tree_witness:
  "loadDirectory (defaultFilter ''.'') ''.'' exampleDir = Inr (Some exampleTree) \<and>
   fileEntries exampleTree = [exampleA, exampleB] \<and>
   sint (getTotalFiles exampleTree) = 2 \<and> sint (getTotalSize exampleTree) = 10"
proof -
  have f: "fileEntries exampleTree = [exampleA, exampleB]"
    by (simp add: fileEntries_def exampleTree_def exampleSub_def exampleA_def exampleB_def)
  from totals_of_built_tree [OF example_build] example_build show ?thesis
    by (simp add: f exampleA_def exampleB_def)
qed

text \<open>
  C10. Every entry of a built tree, the root and every descendant, keeps the invariant
  of the data model: a directory has empty content and a file has no children.
\<close>

theorem built_tree_invariant:
  assumes "loadDirectory flt path node = Inr (Some root)" and "e \<in> set (entries root)"
  shows "(IsDir e \<longrightarrow> Content e = []) \<and> (\<not> IsDir e \<longrightarrow> Children e = [])"
  using wellFormed_entries [OF loadDirectory_wellFormed [OF assms(1)] assms(2)]
  by (simp split: if_splits)

theorem built_tree_invariant_witness:
  "loadDirectory (defaultFilter ''.'') ''.'' exampleDir = Inr (Some exampleTree) \<and>
   exampleSub \<in> set (entries exampleTree) \<and> exampleB \<in> set (entries exampleTree) \<and>
   IsDir exampleSub \<and> Content exampleSub = [] \<and>
   \<not> IsDir exampleB \<and> Children exampleB = []"
proof -
  have s: "exampleSub \<in> set (entries exampleTree)"
    by (simp add: exampleTree_def exampleSub_def exampleA_def exampleB_def)
  have b: "exampleB \<in> set (entries exampleTree)"
    by (simp add: exampleTree_def exampleSub_def exampleA_def exampleB_def)
  have ds: "IsDir exampleSub" by (simp add: exampleSub_def)
  have db: "\<not> IsDir exampleB" by (simp add: exampleB_def)
  from built_tree_invariant [OF example_build s] built_tree_invariant [OF example_build b]
    example_build s b ds db
  show ?thesis by simp
qed

end
